theory Spec2Isabelle
  imports Complex_Main "HOL-Library.Sublist"
begin

section \<open>Strings as the code sees them\<close>

text \<open>
  A JavaScript string is a sequence of UTF-16 code units. The model uses \<^typ>\<open>string\<close>, whose
  characters are the code units 0 to 255 (Latin-1). Code units above 255 (among them the
  white space U+1680, U+2000 to U+200A, U+2028, U+2029, U+202F, U+205F, U+3000, U+FEFF and
  the letters whose lower case is ASCII, such as the Kelvin sign) are outside the model.
\<close>

definition nl :: char where
  "nl = CHR 0x0A"

text \<open>
  The class \<open>\s\<close> of a regular expression and the characters removed by \<open>String.prototype.trim\<close>
  are the same set (WhiteSpace and LineTerminator); these are its members below 256.
\<close>

definition isSpace :: "char \<Rightarrow> bool" where
  "isSpace c = (c \<in> set [CHR 0x09, CHR 0x0A, CHR 0x0B, CHR 0x0C, CHR 0x0D, CHR 0x20, CHR 0xA0])"

definition trim :: "string \<Rightarrow> string" where
  "trim s = rev (dropWhile isSpace (rev (dropWhile isSpace s)))"

text \<open>
  \<open>String.prototype.toLowerCase\<close> on Latin-1: A to Z, and U+00C0 to U+00DE except the
  multiplication sign U+00D7, move up by 32.
\<close>

definition isUpper :: "char \<Rightarrow> bool" where
  "isUpper c = (let n = (of_char c :: nat) in
     (65 \<le> n \<and> n \<le> 90) \<or> (192 \<le> n \<and> n \<le> 222 \<and> n \<noteq> 215))"

definition lowerChar :: "char \<Rightarrow> char" where
  "lowerChar c = (if isUpper c then char_of ((of_char c :: nat) + 32) else c)"

definition toLowerCase :: "string \<Rightarrow> string" where
  "toLowerCase s = map lowerChar s"

section \<open>Types of the content curator (types.ts)\<close>

datatype Platform = Instagram | Youtube | Tiktok | AllPlatforms

datatype ContentType = Search | Ideas | Script | Trending | Hooks | Full

definition allContentTypes :: "ContentType list" where
  "allContentTypes = [Search, Ideas, Script, Trending, Hooks, Full]"

text \<open>The string a content type is at run time (it is interpolated into prompts).\<close>

fun contentTypeName :: "ContentType \<Rightarrow> string" where
  "contentTypeName Search = ''search''"
| "contentTypeName Ideas = ''ideas''"
| "contentTypeName Script = ''script''"
| "contentTypeName Trending = ''trending''"
| "contentTypeName Hooks = ''hooks''"
| "contentTypeName Full = ''full''"

record SearchResult =
  title :: string
  url :: string
  snippet :: string
  publishedDate :: "string option"
  author :: "string option"
  score :: "real option"

record GenerationResult =
  content :: string
  success :: bool
  error :: "string option"

text \<open>
  \<open>SessionContext\<close>: the fields \<open>ideas\<close> and \<open>scripts\<close> of the interface are never read or
  written by the service and are left out. The \<open>Map<ContentType, string>\<close> is a partial map.
\<close>

record SessionContext =
  topic :: string
  platform :: Platform
  searchResults :: "SearchResult list option"
  generatedContent :: "ContentType \<rightharpoonup> string"

section \<open>Command parsing (ui/prompts.ts)\<close>

datatype Command =
    CmdContent ContentType
  | CmdPlatform
  | CmdTopic
  | CmdModel
  | CmdCopy
  | CmdLast
  | CmdClear
  | CmdHelp
  | CmdQuit
  | CmdChat string

definition COMMAND_MAP :: "(string \<times> Command) list" where
  "COMMAND_MAP =
    [(''/search'', CmdContent Search),
     (''/research'', CmdContent Search),
     (''/ideas'', CmdContent Ideas),
     (''/idea'', CmdContent Ideas),
     (''/script'', CmdContent Script),
     (''/scripts'', CmdContent Script),
     (''/trending'', CmdContent Trending),
     (''/trends'', CmdContent Trending),
     (''/hooks'', CmdContent Hooks),
     (''/hook'', CmdContent Hooks),
     (''/full'', CmdContent Full),
     (''/all'', CmdContent Full),
     (''/package'', CmdContent Full),
     (''/platform'', CmdPlatform),
     (''/p'', CmdPlatform),
     (''/topic'', CmdTopic),
     (''/t'', CmdTopic),
     (''/model'', CmdModel),
     (''/m'', CmdModel),
     (''/copy'', CmdCopy),
     (''/c'', CmdCopy),
     (''/last'', CmdLast),
     (''/back'', CmdLast),
     (''/clear'', CmdClear),
     (''/cls'', CmdClear),
     (''/help'', CmdHelp),
     (''/h'', CmdHelp),
     (''/?'', CmdHelp),
     (''/quit'', CmdQuit),
     (''/exit'', CmdQuit),
     (''/q'', CmdQuit)]"

text \<open>
  \<open>COMMAND_MAP\<close> is an object literal, so \<open>COMMAND_MAP[key]\<close> finds the literal's own
  properties first and then the properties every object inherits from \<open>Object.prototype\<close>.
  All of those are functions, except \<open>__proto__\<close>, which reads as \<open>Object.prototype\<close> itself;
  none of them is a \<open>Command\<close>, and all of them are truthy.
\<close>

definition objectPrototypeKeys :: "string list" where
  "objectPrototypeKeys =
    [''constructor'', ''__defineGetter__'', ''__defineSetter__'', ''hasOwnProperty'',
     ''__lookupGetter__'', ''__lookupSetter__'', ''isPrototypeOf'', ''propertyIsEnumerable'',
     ''toString'', ''valueOf'', ''__proto__'', ''toLocaleString'']"

text \<open>
  What \<open>parseCommand\<close> returns at run time: a \<open>Command\<close>, or the inherited member of
  \<open>Object.prototype\<close> of the given name.
\<close>

datatype parsed = Variant Command | Inherited string

text \<open>\<open>COMMAND_MAP[key]\<close>; \<open>None\<close> is \<open>undefined\<close>.\<close>

definition commandMapGet :: "string \<Rightarrow> parsed option" where
  "commandMapGet key =
    (case map_of COMMAND_MAP key of
       Some cmd \<Rightarrow> Some (Variant cmd)
     | None \<Rightarrow> (if key \<in> set objectPrototypeKeys then Some (Inherited key) else None))"

text \<open>\<open>trimmed.startsWith("/")\<close>\<close>

fun startsWithSlash :: "string \<Rightarrow> bool" where
  "startsWithSlash (c # cs) = (c = CHR ''/'')"
| "startsWithSlash [] = False"

definition parseCommand :: "string \<Rightarrow> parsed" where
  "parseCommand inputText =
    (let trimmed = trim inputText;
         lowered = toLowerCase trimmed
     in case commandMapGet lowered of
          Some v \<Rightarrow> v
        | None \<Rightarrow>
            if trimmed = [] then Variant (CmdChat [])
            else if startsWithSlash trimmed then Variant (CmdChat trimmed)
            else Variant (CmdChat trimmed))"

section \<open>Content cleanup (CopilotService.cleanContent)\<close>

text \<open>
  The lookahead \<open>(?=##|#\s)\<close> at the head of the remaining text: a hash followed by a hash or
  by a white space character.
\<close>

fun headingAt :: "string \<Rightarrow> bool" where
  "headingAt (a # b # cs) = (a = CHR ''#'' \<and> (b = CHR ''#'' \<or> isSpace b))"
| "headingAt cs = False"

text \<open>
  \<open>/^[\s\S]*?(?=##|#\s)/m\<close> without the \<open>g\<close> flag: the first attempt starts at index 0, where
  \<open>^\<close> holds, and the lazy \<open>[\s\S]*?\<close> stops at the first index where the lookahead holds.
  If the lookahead holds nowhere, no later start matches either. \<open>findHeading\<close> returns the
  text from that first index on, \<open>None\<close> if there is no match.
\<close>

fun findHeading :: "string \<Rightarrow> string option" where
  "findHeading [] = None"
| "findHeading (c # cs) = (if headingAt (c # cs) then Some (c # cs) else findHeading cs)"

definition removePreamble :: "string \<Rightarrow> string" where
  "removePreamble s = (case findHeading s of Some rest \<Rightarrow> rest | None \<Rightarrow> s)"

text \<open>
  \<open>.replace(/\n{3,}/g, "\n\n")\<close>: from left to right, each maximal run of three or more line
  feeds becomes two line feeds; shorter runs stay.
\<close>

function collapseNewlines :: "string \<Rightarrow> string" where
  "collapseNewlines [] = []"
| "collapseNewlines (c # cs) =
    (if c = nl \<and> 2 \<le> length (takeWhile (\<lambda>x. x = nl) cs)
     then nl # nl # collapseNewlines (dropWhile (\<lambda>x. x = nl) cs)
     else c # collapseNewlines cs)"
  by pat_completeness auto
termination
  by (relation "measure length") (auto simp: length_dropWhile_le less_Suc_eq_le)

definition cleanContent :: "string \<Rightarrow> string" where
  "cleanContent content' = trim (collapseNewlines (removePreamble content'))"

section \<open>Collaborators of the service\<close>

datatype ModelId = Gpt4o | Gpt41 | Gpt5 | ClaudeSonnet4 | O3 | O4Mini

text \<open>Handles of the Copilot client and of a chat session.\<close>

type_synonym CopilotClient = nat
type_synonym Session = nat

text \<open>
  What a \<open>catch\<close> clause receives: an \<open>Error\<close> instance with its message, or any other value.
\<close>

datatype thrown = ErrorObj string | NonError

text \<open>
  The events a session delivers to its listener. \<open>AssistantMessageDelta d\<close> has type
  \<open>"assistant.message_delta"\<close>; \<open>d\<close> is \<open>data.deltaContent\<close> when that is a string and \<open>None\<close>
  when it is missing or not a string.
\<close>

datatype SessionEvent = AssistantMessageDelta "string option" | AssistantUsage | OtherEvent

datatype SearchType = General | TrendingSearch | IdeasSearch

text \<open>
  The behaviour of the collaborators during one operation of the service:
  \<^item> \<open>exaSearch\<close>: the outcome of \<open>ExaService.searchAndContents\<close> (\<open>General\<close>),
    \<open>searchTrending\<close> or \<open>searchContentIdeas\<close> on a topic, results or a thrown value;
  \<^item> \<open>formatResultsForLLM\<close>: the method of \<open>ExaService\<close> of that name;
  \<^item> \<open>getContentPrompt\<close>: the template function of prompts/templates.ts (content type, topic,
    platform, additional context);
  \<^item> \<open>sendAndWait\<close>: what happens between subscribing to the session's events and
    unsubscribing: the events delivered before \<open>sendAndWait\<close> resolves, or a thrown value;
  \<^item> \<open>newSession\<close>: the outcome of \<open>client.createSession\<close> for a model;
  \<^item> \<open>newClient\<close>, \<open>clientStart\<close>: the client built by \<open>initialize\<close> (building it does not
    throw) and the outcome of starting it, \<open>None\<close> if it starts;
  \<^item> \<open>sessionDestroy\<close>: the outcome of \<open>session.destroy()\<close>, \<open>None\<close> if it returns;
  \<^item> \<open>nullMessage\<close>: the message of the \<open>TypeError\<close> raised by calling a method of \<open>null\<close>.
  The outcome of \<open>client.stop()\<close> is not in the record: it is the last call of \<open>cleanup\<close>,
  which ignores it.
\<close>

record World =
  exaSearch :: "SearchType \<Rightarrow> string \<Rightarrow> thrown + SearchResult list"
  formatResultsForLLM :: "SearchResult list \<Rightarrow> string"
  getContentPrompt :: "ContentType \<Rightarrow> string \<Rightarrow> Platform \<Rightarrow> string option \<Rightarrow> string"
  sendAndWait :: "Session \<Rightarrow> string \<Rightarrow> thrown + SessionEvent list"
  newSession :: "CopilotClient \<Rightarrow> ModelId \<Rightarrow> thrown + Session"
  newClient :: CopilotClient
  clientStart :: "CopilotClient \<Rightarrow> thrown option"
  sessionDestroy :: "Session \<Rightarrow> thrown option"
  nullMessage :: string

text \<open>
  What an operation does besides returning: its calls to the collaborators and its writes to
  the content cache, in the order in which they happen.
\<close>

datatype effect =
    ExaCall SearchType string
  | SendCall Session string
  | DestroyCall Session
  | CreateSessionCall CopilotClient ModelId
  | ClientStartCall CopilotClient
  | ClientStopCall CopilotClient
  | CacheDelete ContentType
  | CacheSet ContentType string
  | CacheClear

section \<open>Prompt templates (prompts/templates.ts)\<close>

definition dq :: string where
  "dq = [CHR 0x22]"

definition getRefinementPrompt :: "string \<Rightarrow> string \<Rightarrow> string" where
  "getRefinementPrompt originalContent refinementRequest =
    [nl] @ ''Based on this previously generated content:'' @ [nl, nl]
    @ originalContent @ [nl, nl]
    @ ''The user wants to refine it with this feedback:'' @ [nl]
    @ dq @ refinementRequest @ dq @ [nl, nl]
    @ ''Please update the content accordingly while maintaining the same format and quality.''
    @ [nl]"

definition getMoreVariationsPrompt :: "ContentType \<Rightarrow> string \<Rightarrow> string \<Rightarrow> string" where
  "getMoreVariationsPrompt contentType existingContent topic' =
    [nl] @ ''You previously generated this '' @ contentTypeName contentType @ '' content for ''
    @ dq @ topic' @ dq @ '':'' @ [nl, nl]
    @ existingContent @ [nl, nl]
    @ ''Generate 3 MORE unique variations that are different from the above but equally engaging.''
    @ [nl]
    @ ''Use web_search_exa to find additional angles or fresh information.'' @ [nl]
    @ ''Maintain the same format and quality standards.'' @ [nl]"

section \<open>The service (CopilotService)\<close>

text \<open>
  The fields of the class (\<open>context'\<close> is the field \<open>context\<close>). \<open>exaConfigured\<close> is
  \<open>exaService.isConfigured()\<close>, fixed when the
  service is built. The spinner and \<open>quotaInfo\<close> (never written) are left out.
\<close>

record CopilotService =
  client :: "CopilotClient option"
  session :: "Session option"
  context' :: SessionContext
  currentModel :: ModelId
  exaConfigured :: bool

definition constructor :: "bool \<Rightarrow> string \<Rightarrow> Platform \<Rightarrow> ModelId \<Rightarrow> CopilotService" where
  "constructor exaKey topic' platform' model =
    \<lparr>client = None, session = None,
     context' = \<lparr>topic = topic', platform = platform', searchResults = None,
                generatedContent = Map.empty\<rparr>,
     currentModel = model, exaConfigured = exaKey\<rparr>"

definition setPlatform :: "Platform \<Rightarrow> CopilotService \<Rightarrow> CopilotService" where
  "setPlatform platform' s = s\<lparr>context' := (context' s)\<lparr>platform := platform'\<rparr>\<rparr>"

definition setTopic :: "string \<Rightarrow> CopilotService \<Rightarrow> CopilotService" where
  "setTopic topic' s =
    s\<lparr>context' := (context' s)\<lparr>topic := topic', generatedContent := Map.empty,
                             searchResults := None\<rparr>\<rparr>"

definition getLastContent :: "ContentType \<Rightarrow> CopilotService \<Rightarrow> string option" where
  "getLastContent contentType s = generatedContent (context' s) contentType"

text \<open>
  \<open>createSession\<close>: \<open>this.client!.createSession(...)\<close> raises a \<open>TypeError\<close> when the client is
  \<open>null\<close>; otherwise the session field is assigned only if the call returns.
\<close>

definition createSession ::
  "World \<Rightarrow> CopilotService \<Rightarrow> (thrown + unit) \<times> CopilotService \<times> effect list" where
  "createSession w s =
    (case client s of
       None \<Rightarrow> (Inl (ErrorObj (nullMessage w)), s, [])
     | Some cl \<Rightarrow>
        (case newSession w cl (currentModel s) of
           Inl err \<Rightarrow> (Inl err, s, [CreateSessionCall cl (currentModel s)])
         | Inr h \<Rightarrow> (Inr (), s\<lparr>session := Some h\<rparr>, [CreateSessionCall cl (currentModel s)])))"

text \<open>
  \<open>switchModel\<close>: the old session is destroyed first (an error of \<open>destroy\<close> is caught
  and ignored, so its outcome does not matter), the
  model field is assigned, and then the new session is created; an error of the creation is
  raised again.
\<close>

definition switchModel ::
  "World \<Rightarrow> ModelId \<Rightarrow> CopilotService \<Rightarrow> (thrown + unit) \<times> CopilotService \<times> effect list" where
  "switchModel w newModel s =
    (if newModel = currentModel s then (Inr (), s, [])
     else
       let destroyed = (case session s of Some h \<Rightarrow> [DestroyCall h] | None \<Rightarrow> []);
           s1 = s\<lparr>currentModel := newModel\<rparr>
       in case createSession w s1 of
            (Inl err, s2, es) \<Rightarrow> (Inl err, s2, destroyed @ es)
          | (Inr u, s2, es) \<Rightarrow> (Inr (), s2, destroyed @ es))"

definition initialize ::
  "World \<Rightarrow> CopilotService \<Rightarrow> (thrown + unit) \<times> CopilotService \<times> effect list" where
  "initialize w s =
    (let cl = newClient w;
         s1 = s\<lparr>client := Some cl\<rparr>
     in case clientStart w cl of
          Some err \<Rightarrow> (Inl err, s1, [ClientStartCall cl])
        | None \<Rightarrow>
           (case createSession w s1 of
              (r, s2, es) \<Rightarrow> (r, s2, ClientStartCall cl # es)))"

text \<open>
  \<open>cleanup\<close>: one \<open>try\<close> around both calls, so a \<open>destroy\<close> that throws skips the stop of the
  client; the error is ignored and no field is assigned.
\<close>

definition cleanup :: "World \<Rightarrow> CopilotService \<Rightarrow> CopilotService \<times> effect list" where
  "cleanup w s =
    (let stop = (case client s of Some cl \<Rightarrow> [ClientStopCall cl] | None \<Rightarrow> [])
     in case session s of
          Some h \<Rightarrow>
            (case sessionDestroy w h of
               Some err \<Rightarrow> (s, [DestroyCall h])
             | None \<Rightarrow> (s, DestroyCall h # stop))
        | None \<Rightarrow> (s, stop))"

text \<open>
  \<open>performSearch\<close> returns the text put in front of the prompt. A search that throws is
  replaced by a note; only a search that returns stores its results.
\<close>

definition performSearch ::
  "World \<Rightarrow> SearchType \<Rightarrow> CopilotService \<Rightarrow> string \<times> CopilotService \<times> effect list" where
  "performSearch w type' s =
    (if \<not> exaConfigured s then
       (''Note: Using general knowledge. For better results, set EXA_API_KEY in .env file.'',
        s, [])
     else
       (case exaSearch w type' (topic (context' s)) of
          Inr results \<Rightarrow>
            (formatResultsForLLM w results,
             s\<lparr>context' := (context' s)\<lparr>searchResults := Some results\<rparr>\<rparr>,
             [ExaCall type' (topic (context' s))])
        | Inl err \<Rightarrow>
            (''Using general knowledge about '' @ dq @ topic (context' s) @ dq @ ''.'',
             s, [ExaCall type' (topic (context' s))])))"

text \<open>\<open>handleEvent\<close> with the callback \<open>content += text\<close>: the text after the event.\<close>

fun handleEvent :: "SessionEvent \<Rightarrow> string \<Rightarrow> string" where
  "handleEvent (AssistantMessageDelta (Some deltaContent)) content' =
     (if deltaContent \<noteq> [] then content' @ deltaContent else content')"
| "handleEvent ev content' = content'"

definition collectEvents :: "SessionEvent list \<Rightarrow> string" where
  "collectEvents evs = foldl (\<lambda>content' ev. handleEvent ev content') [] evs"

text \<open>\<open>error instanceof Error ? error.message : "Generation failed"\<close>\<close>

fun errorMessage :: "thrown \<Rightarrow> string" where
  "errorMessage (ErrorObj m) = m"
| "errorMessage NonError = ''Generation failed''"

definition sendPrompt ::
  "World \<Rightarrow> string \<Rightarrow> ContentType option \<Rightarrow> CopilotService
     \<Rightarrow> GenerationResult \<times> CopilotService \<times> effect list" where
  "sendPrompt w prompt contentType s =
    (case session s of
       None \<Rightarrow>
         (\<lparr>content = [], success = False, error = Some ''Session not initialized''\<rparr>, s, [])
     | Some h \<Rightarrow>
        (case sendAndWait w h prompt of
           Inl err \<Rightarrow>
             (\<lparr>content = [], success = False, error = Some (errorMessage err)\<rparr>, s,
              [SendCall h prompt])
         | Inr evs \<Rightarrow>
            (let content' = cleanContent (collectEvents evs);
                 res = \<lparr>content = content', success = True, error = None\<rparr>
             in case contentType of
                  Some ct \<Rightarrow>
                    if content' \<noteq> [] then
                      (res,
                       s\<lparr>context' := (context' s)\<lparr>generatedContent :=
                            (generatedContent (context' s))(ct \<mapsto> content')\<rparr>\<rparr>,
                       [SendCall h prompt, CacheSet ct content'])
                    else (res, s, [SendCall h prompt])
                | None \<Rightarrow> (res, s, [SendCall h prompt]))))"

text \<open>
  \<open>generate\<close>; the options object is the two arguments \<open>regenerate\<close> (default \<open>false\<close>) and
  \<open>additionalContext\<close>. A cached text counts only if it is truthy, that is, not empty.
\<close>

definition searchTypeOf :: "ContentType \<Rightarrow> SearchType" where
  "searchTypeOf contentType =
    (if contentType = Trending then TrendingSearch
     else if contentType = Ideas then IdeasSearch
     else General)"

definition generate ::
  "World \<Rightarrow> ContentType \<Rightarrow> bool \<Rightarrow> string option \<Rightarrow> CopilotService
     \<Rightarrow> GenerationResult \<times> CopilotService \<times> effect list" where
  "generate w contentType regenerate additionalContext s =
    (let (s1, es1) =
           (if regenerate then
              (s\<lparr>context' := (context' s)\<lparr>generatedContent :=
                   (generatedContent (context' s))(contentType := None)\<rparr>\<rparr>,
               [CacheDelete contentType])
            else (s, []));
         cached = generatedContent (context' s1) contentType
     in if cached \<noteq> None \<and> cached \<noteq> Some [] \<and> \<not> regenerate then
          (\<lparr>content = the cached, success = True, error = None\<rparr>, s1, es1)
        else
          (let (searchText, s2, es2) = performSearch w (searchTypeOf contentType) s1;
               basePrompt = getContentPrompt w contentType (topic (context' s2))
                              (platform (context' s2)) additionalContext;
               promptWithSearch = searchText @ [nl, nl] @ ''---'' @ [nl, nl] @ basePrompt;
               (res, s3, es3) = sendPrompt w promptWithSearch (Some contentType) s2
           in (res, s3, es1 @ es2 @ es3)))"

definition refine ::
  "World \<Rightarrow> ContentType \<Rightarrow> string \<Rightarrow> CopilotService
     \<Rightarrow> GenerationResult \<times> CopilotService \<times> effect list" where
  "refine w contentType refinementRequest s =
    (case generatedContent (context' s) contentType of
       Some lastContent \<Rightarrow>
         if lastContent \<noteq> [] then
           sendPrompt w (getRefinementPrompt lastContent refinementRequest) (Some contentType) s
         else
           (\<lparr>content = [], success = False,
             error = Some ''No content to refine. Generate content first.''\<rparr>, s, [])
     | None \<Rightarrow>
         (\<lparr>content = [], success = False,
           error = Some ''No content to refine. Generate content first.''\<rparr>, s, []))"

definition getMoreVariations ::
  "World \<Rightarrow> ContentType \<Rightarrow> CopilotService
     \<Rightarrow> GenerationResult \<times> CopilotService \<times> effect list" where
  "getMoreVariations w contentType s =
    (case generatedContent (context' s) contentType of
       Some existingContent \<Rightarrow>
         if existingContent \<noteq> [] then
           sendPrompt w
             (getMoreVariationsPrompt contentType existingContent (topic (context' s)))
             (Some contentType) s
         else
           (\<lparr>content = [], success = False,
             error = Some ''No existing content. Generate content first.''\<rparr>, s, [])
     | None \<Rightarrow>
         (\<lparr>content = [], success = False,
           error = Some ''No existing content. Generate content first.''\<rparr>, s, []))"

section \<open>The states the service can be in\<close>

text \<open>
  The fields are private: a state of the service is what the constructor builds, changed by
  the public methods in any order and with any behaviour of the collaborators.
\<close>

inductive reachable :: "CopilotService \<Rightarrow> bool" where
  r_new: "reachable (constructor exaKey topic' platform' model)"
| r_initialize: "reachable s \<Longrightarrow> reachable (fst (snd (initialize w s)))"
| r_setPlatform: "reachable s \<Longrightarrow> reachable (setPlatform platform' s)"
| r_setTopic: "reachable s \<Longrightarrow> reachable (setTopic topic' s)"
| r_switchModel: "reachable s \<Longrightarrow> reachable (fst (snd (switchModel w newModel s)))"
| r_generate: "reachable s \<Longrightarrow> reachable (fst (snd (generate w contentType rg ac s)))"
| r_refine: "reachable s \<Longrightarrow> reachable (fst (snd (refine w contentType fb s)))"
| r_variations: "reachable s \<Longrightarrow> reachable (fst (snd (getMoreVariations w contentType s)))"
| r_cleanup: "reachable s \<Longrightarrow> reachable (fst (cleanup w s))"

text \<open>No cached text is empty: the invariant behind every truthiness test on the cache.\<close>

definition cacheNonEmpty :: "CopilotService \<Rightarrow> bool" where
  "cacheNonEmpty s = list_all (\<lambda>ct. generatedContent (context' s) ct \<noteq> Some []) allContentTypes"

section \<open>Parts of \<open>generate\<close>, named for the proofs\<close>

text \<open>
  The state after \<open>generatedContent.delete(contentType)\<close>, the condition under which
  \<open>generate\<close> goes past its cache test, and the prompt it then sends.
\<close>

definition uncache :: "ContentType \<Rightarrow> CopilotService \<Rightarrow> CopilotService" where
  "uncache ct s = s\<lparr>context' := (context' s)\<lparr>generatedContent :=
                   (generatedContent (context' s))(ct := None)\<rparr>\<rparr>"

definition freshNeeded :: "ContentType \<Rightarrow> bool \<Rightarrow> CopilotService \<Rightarrow> bool" where
  "freshNeeded ct rg s =
     (rg \<or> generatedContent (context' s) ct = None \<or> generatedContent (context' s) ct = Some [])"

definition promptOf ::
  "World \<Rightarrow> ContentType \<Rightarrow> string option \<Rightarrow> string \<Rightarrow> CopilotService \<Rightarrow> string" where
  "promptOf w ct ac searchText s =
     searchText @ [nl, nl] @ ''---'' @ [nl, nl]
     @ getContentPrompt w ct (topic (context' s)) (platform (context' s)) ac"

section \<open>Vocabulary of the cleanup policy\<close>






section \<open>Vocabulary of the parser\<close>

text \<open>No character of the string is one of the ASCII letters A to Z.\<close>

definition asciiUpperFree :: "string \<Rightarrow> bool" where
  "asciiUpperFree s = list_all (\<lambda>c. \<not> (65 \<le> (of_char c :: nat) \<and> (of_char c :: nat) \<le> 90)) s"

section \<open>Concrete collaborators and states\<close>

text \<open>
  A world whose chat session delivers the given events and resolves, whose search returns no
  results and whose client starts and creates session 1; and a world in which sending and
  session creation throw.
\<close>

definition worldAnswering :: "SessionEvent list \<Rightarrow> World" where
  "worldAnswering evs =
    \<lparr>exaSearch = (\<lambda>ty q. Inr []),
     formatResultsForLLM = (\<lambda>rs. ''No search results found.''),
     getContentPrompt = (\<lambda>ct t p ac. ''Write '' @ contentTypeName ct @ '' about '' @ t),
     sendAndWait = (\<lambda>h p. Inr evs),
     newSession = (\<lambda>cl m. Inr 1),
     newClient = 0,
     clientStart = (\<lambda>cl. None),
     sessionDestroy = (\<lambda>h. None),
     nullMessage = ''Cannot read properties of null''\<rparr>"

definition worldFailing :: World where
  "worldFailing =
    (worldAnswering [])\<lparr>sendAndWait := (\<lambda>h p. Inl (ErrorObj ''request timed out'')),
                         newSession := (\<lambda>cl m. Inl (ErrorObj ''model not available''))\<rparr>"

text \<open>
  The service after its construction and \<open>initialize\<close>, and after a first
  \<open>generate("script", {regenerate: true})\<close> answered with a heading, as the command loop
  starts it.
\<close>

definition stateReady :: CopilotService where
  "stateReady =
     fst (snd (initialize (worldAnswering []) (constructor False ''cats'' Instagram Gpt4o)))"

definition stateWithScript :: CopilotService where
  "stateWithScript =
     fst (snd (generate (worldAnswering [AssistantMessageDelta (Some ''## Old script'')])
                 Script True None stateReady))"

section \<open>Basic facts\<close>

lemma allContentTypes_UNIV: "set allContentTypes = UNIV"
proof -
  have "ct \<in> set allContentTypes" for ct
    by (cases ct) (simp_all add: allContentTypes_def)
  then show ?thesis by blast
qed

lemma cacheNonEmpty_iff:
  "cacheNonEmpty s \<longleftrightarrow> (\<forall>ct. generatedContent (context' s) ct \<noteq> Some [])"
  by (simp add: cacheNonEmpty_def list_all_iff allContentTypes_UNIV)

lemma sendPrompt_cacheNonEmpty:
  "cacheNonEmpty s \<Longrightarrow> cacheNonEmpty (fst (snd (sendPrompt w p cto s)))"
  by (auto simp: cacheNonEmpty_iff sendPrompt_def Let_def split: option.splits sum.splits)

lemma createSession_context: "context' (fst (snd (createSession w s))) = context' s"
  by (simp add: createSession_def split: option.splits sum.splits)

lemma performSearch_cache:
  "generatedContent (context' (fst (snd (performSearch w ty s)))) = generatedContent (context' s)"
  by (simp add: performSearch_def split: sum.splits)


lemma generate_cached:
  "\<not> freshNeeded ct rg s \<Longrightarrow>
     generate w ct rg ac s =
       (\<lparr>content = the (generatedContent (context' s) ct), success = True, error = None\<rparr>, s, [])"
  by (auto simp: generate_def freshNeeded_def)

lemma generate_fresh:
  assumes "freshNeeded ct rg s"
  shows "generate w ct rg ac s =
     (let s1 = (if rg then uncache ct s else s);
          ps = performSearch w (searchTypeOf ct) s1;
          sp = sendPrompt w (promptOf w ct ac (fst ps) (fst (snd ps))) (Some ct) (fst (snd ps))
      in (fst sp, fst (snd sp),
          (if rg then [CacheDelete ct] else []) @ snd (snd ps) @ snd (snd sp)))"
  using assms
  by (auto simp: generate_def freshNeeded_def uncache_def promptOf_def Let_def case_prod_beta)

lemma reachable_cacheNonEmpty: "reachable s \<Longrightarrow> cacheNonEmpty s"
proof (induction rule: reachable.induct)
  case (r_new exaKey topic' platform' model)
  then show ?case by (simp add: cacheNonEmpty_iff constructor_def)
next
  case (r_initialize s w)
  then show ?case
    by (simp add: cacheNonEmpty_iff initialize_def Let_def createSession_def
        split: option.splits sum.splits prod.splits)
next
  case (r_setPlatform s platform')
  then show ?case by (simp add: cacheNonEmpty_iff setPlatform_def)
next
  case (r_setTopic s topic')
  then show ?case by (simp add: cacheNonEmpty_iff setTopic_def)
next
  case (r_switchModel s w newModel)
  then show ?case
    by (auto simp add: cacheNonEmpty_iff switchModel_def Let_def createSession_def
        split: option.splits sum.splits prod.splits)
next
  case (r_generate s w contentType rg ac)
  have 1: "cacheNonEmpty (uncache contentType s)"
    using r_generate.IH by (simp add: cacheNonEmpty_iff uncache_def)
  show ?case
  proof (cases "freshNeeded contentType rg s")
    case True
    have "cacheNonEmpty (fst (snd (performSearch w (searchTypeOf contentType)
            (if rg then uncache contentType s else s))))"
      using 1 r_generate.IH by (simp add: cacheNonEmpty_iff performSearch_cache)
    then show ?thesis
      unfolding generate_fresh[OF True] Let_def by (simp add: sendPrompt_cacheNonEmpty)
  next
    case False
    then show ?thesis using r_generate.IH by (simp add: generate_cached)
  qed
next
  case (r_refine s w contentType fb)
  then show ?case
    using sendPrompt_cacheNonEmpty by (simp add: refine_def split: option.splits)
next
  case (r_variations s w contentType)
  then show ?case
    using sendPrompt_cacheNonEmpty by (simp add: getMoreVariations_def split: option.splits)
next
  case (r_cleanup s w)
  then show ?case
    by (simp add: cleanup_def cacheNonEmpty_iff Let_def split: option.splits)
qed

lemma stateReady_eq:
  "stateReady = \<lparr>client = Some 0, session = Some 1,
     context' = \<lparr>topic = ''cats'', platform = Instagram, searchResults = None,
                generatedContent = Map.empty\<rparr>,
     currentModel = Gpt4o, exaConfigured = False\<rparr>"
  by (simp add: stateReady_def initialize_def constructor_def worldAnswering_def createSession_def)

lemma clean_old: "cleanContent ''## Old script'' = ''## Old script''" by code_simp

lemma stateWithScript_eq:
  "stateWithScript = \<lparr>client = Some 0, session = Some 1,
     context' = \<lparr>topic = ''cats'', platform = Instagram, searchResults = None,
                generatedContent = [Script \<mapsto> ''## Old script'']\<rparr>,
     currentModel = Gpt4o, exaConfigured = False\<rparr>"
  by (simp add: stateWithScript_def stateReady_eq generate_def performSearch_def sendPrompt_def
      worldAnswering_def collectEvents_def clean_old Let_def)

lemma sendPrompt_shape:
  "(success (fst (sendPrompt w p cto s)) \<longrightarrow> error (fst (sendPrompt w p cto s)) = None)
   \<and> (\<not> success (fst (sendPrompt w p cto s)) \<longrightarrow>
        content (fst (sendPrompt w p cto s)) = [] \<and> error (fst (sendPrompt w p cto s)) \<noteq> None)"
  by (simp add: sendPrompt_def Let_def split: option.splits sum.splits)

lemma sendPrompt_failure_state:
  "\<not> success (fst (sendPrompt w p cto s)) \<Longrightarrow> fst (snd (sendPrompt w p cto s)) = s"
  by (simp add: sendPrompt_def Let_def split: option.splits sum.splits if_splits)

lemma sendPrompt_success:
  assumes "success (fst (sendPrompt w p cto s))"
  shows "\<exists>h evs. session s = Some h \<and> sendAndWait w h p = Inr evs
           \<and> content (fst (sendPrompt w p cto s)) = cleanContent (collectEvents evs)
           \<and> SendCall h p \<in> set (snd (snd (sendPrompt w p cto s)))"
  using assms by (auto simp add: sendPrompt_def Let_def split: option.splits sum.splits if_splits)

lemma sendPrompt_cache:
  "generatedContent (context' (fst (snd (sendPrompt w p (Some ct) s)))) =
     (if success (fst (sendPrompt w p (Some ct) s)) \<and> content (fst (sendPrompt w p (Some ct) s)) \<noteq> []
      then (generatedContent (context' s))(ct \<mapsto> content (fst (sendPrompt w p (Some ct) s)))
      else generatedContent (context' s))"
  by (simp add: sendPrompt_def Let_def split: option.splits sum.splits)


lemma sendPrompt_failing:
  "session s = None \<or> (\<exists>h. session s = Some h \<and> isl (sendAndWait w h p)) \<Longrightarrow>
     \<not> success (fst (sendPrompt w p cto s))"
  by (auto simp add: sendPrompt_def Let_def isl_def split: option.splits sum.splits)

lemma performSearch_session: "session (fst (snd (performSearch w ty s))) = session s"
  by (simp add: performSearch_def split: sum.splits)

lemma setTopic_fresh: "freshNeeded T rg (setTopic t s)"
  by (simp add: freshNeeded_def setTopic_def)

lemma clean_blank: "cleanContent '' '' = []" by code_simp


lemma clean_dogs: "cleanContent ''# Dogs'' = ''# Dogs''" by code_simp

lemma generate_shape:
  "(success (fst (generate w T rg ac s)) \<longrightarrow> error (fst (generate w T rg ac s)) = None)
   \<and> (\<not> success (fst (generate w T rg ac s)) \<longrightarrow>
        content (fst (generate w T rg ac s)) = [] \<and> error (fst (generate w T rg ac s)) \<noteq> None)"
proof (cases "freshNeeded T rg s")
  case True
  show ?thesis unfolding generate_fresh[OF True] Let_def using sendPrompt_shape by simp
next
  case False
  then show ?thesis by (simp add: generate_cached)
qed

lemma refine_shape:
  "(success (fst (refine w T fb s)) \<longrightarrow> error (fst (refine w T fb s)) = None)
   \<and> (\<not> success (fst (refine w T fb s)) \<longrightarrow>
        content (fst (refine w T fb s)) = [] \<and> error (fst (refine w T fb s)) \<noteq> None)"
  using sendPrompt_shape by (simp add: refine_def split: option.splits)

lemma getMoreVariations_shape:
  "(success (fst (getMoreVariations w T s)) \<longrightarrow> error (fst (getMoreVariations w T s)) = None)
   \<and> (\<not> success (fst (getMoreVariations w T s)) \<longrightarrow>
        content (fst (getMoreVariations w T s)) = []
        \<and> error (fst (getMoreVariations w T s)) \<noteq> None)"
  using sendPrompt_shape by (simp add: getMoreVariations_def split: option.splits)

lemma sendPrompt_empty_success:
  assumes "success (fst (sendPrompt w p cto s))" "content (fst (sendPrompt w p cto s)) = []"
  shows "\<exists>h evs. sendAndWait w h p = Inr evs \<and> cleanContent (collectEvents evs) = []
            \<and> SendCall h p \<in> set (snd (snd (sendPrompt w p cto s)))"
  using sendPrompt_success[OF assms(1)] assms(2) by metis

lemma generate_empty_success:
  assumes "cacheNonEmpty s" "success (fst (generate w T rg ac s))"
    "content (fst (generate w T rg ac s)) = []"
  shows "\<exists>h p evs. sendAndWait w h p = Inr evs \<and> cleanContent (collectEvents evs) = []
            \<and> SendCall h p \<in> set (snd (snd (generate w T rg ac s)))"
proof (cases "freshNeeded T rg s")
  case True
  let ?ps = "performSearch w (searchTypeOf T) (if rg then uncache T s else s)"
  let ?sp = "sendPrompt w (promptOf w T ac (fst ?ps) (fst (snd ?ps))) (Some T) (fst (snd ?ps))"
  have g: "generate w T rg ac s = (fst ?sp, fst (snd ?sp),
          (if rg then [CacheDelete T] else []) @ snd (snd ?ps) @ snd (snd ?sp))"
    using generate_fresh[OF True, of w ac] by (simp add: Let_def)
  have "success (fst ?sp)" "content (fst ?sp) = []" using assms(2,3) by (simp_all add: g)
  from sendPrompt_empty_success[OF this] obtain h evs where
    "sendAndWait w h (promptOf w T ac (fst ?ps) (fst (snd ?ps))) = Inr evs"
    "cleanContent (collectEvents evs) = []"
    "SendCall h (promptOf w T ac (fst ?ps) (fst (snd ?ps))) \<in> set (snd (snd ?sp))" by blast
  then have "sendAndWait w h (promptOf w T ac (fst ?ps) (fst (snd ?ps))) = Inr evs
     \<and> cleanContent (collectEvents evs) = []
     \<and> SendCall h (promptOf w T ac (fst ?ps) (fst (snd ?ps)))
          \<in> set (snd (snd (generate w T rg ac s)))"
    by (simp add: g)
  then show ?thesis by blast
next
  case False
  then obtain cached where "generatedContent (context' s) T = Some cached" "cached \<noteq> []"
    by (auto simp: freshNeeded_def)
  then show ?thesis using assms(3) by (simp add: generate_cached[OF False])
qed

lemma reachable_stateReady: "reachable stateReady"
  unfolding stateReady_def by (rule r_initialize) (rule r_new)

lemma reachable_stateWithScript: "reachable stateWithScript"
  unfolding stateWithScript_def by (rule r_generate) (rule reachable_stateReady)

lemma generate_blank_answer:
  "generate (worldAnswering [AssistantMessageDelta (Some '' '')]) Script True None stateReady =
     (\<lparr>content = [], success = True, error = None\<rparr>, stateReady,
      [CacheDelete Script,
       SendCall 1 (promptOf (worldAnswering [AssistantMessageDelta (Some '' '')]) Script None
          ''Note: Using general knowledge. For better results, set EXA_API_KEY in .env file.''
          stateReady)])"
  by (simp add: stateReady_eq generate_def performSearch_def sendPrompt_def promptOf_def
      worldAnswering_def collectEvents_def clean_blank Let_def searchTypeOf_def)

lemma generate_failing:
  "generate worldFailing Script False None stateReady =
     (\<lparr>content = [], success = False, error = Some ''request timed out''\<rparr>, stateReady,
      [SendCall 1 (promptOf worldFailing Script None
          ''Note: Using general knowledge. For better results, set EXA_API_KEY in .env file.''
          stateReady)])"
  by (simp add: stateReady_eq generate_def performSearch_def sendPrompt_def promptOf_def
      worldFailing_def worldAnswering_def Let_def searchTypeOf_def)

lemma sendPrompt_outcome:
  "(success (fst (sendPrompt w p cto s)) \<longrightarrow>
      error (fst (sendPrompt w p cto s)) = None
      \<and> (\<exists>h evs. session s = Some h \<and> sendAndWait w h p = Inr evs
            \<and> content (fst (sendPrompt w p cto s)) = cleanContent (collectEvents evs)
            \<and> SendCall h p \<in> set (snd (snd (sendPrompt w p cto s)))))
   \<and> (\<not> success (fst (sendPrompt w p cto s)) \<longrightarrow>
      content (fst (sendPrompt w p cto s)) = []
      \<and> (error (fst (sendPrompt w p cto s)) = Some ''Session not initialized'' \<and> session s = None
          \<or> (\<exists>h e. session s = Some h \<and> sendAndWait w h p = Inl e
                \<and> error (fst (sendPrompt w p cto s)) = Some (errorMessage e)
                \<and> SendCall h p \<in> set (snd (snd (sendPrompt w p cto s))))))"
  by (auto simp add: sendPrompt_def Let_def split: option.splits sum.splits if_splits)

lemma generate_first_script:
  "generate (worldAnswering [AssistantMessageDelta (Some ''## Old script'')])
        Script False None stateReady =
        (\<lparr>content = ''## Old script'', success = True, error = None\<rparr>, stateWithScript,
         [SendCall 1 (promptOf (worldAnswering [AssistantMessageDelta (Some ''## Old script'')])
            Script None
            ''Note: Using general knowledge. For better results, set EXA_API_KEY in .env file.''
            stateReady),
          CacheSet Script ''## Old script''])"
  by (simp add: stateWithScript_eq stateReady_eq generate_def performSearch_def sendPrompt_def
        promptOf_def worldAnswering_def collectEvents_def clean_old Let_def searchTypeOf_def)

text \<open>The message of a failure is whatever the thrown error carries, the empty text included.\<close>

lemma failure_message_can_be_empty:
  "fst (generate ((worldAnswering [])\<lparr>sendAndWait := (\<lambda>h p. Inl (ErrorObj []))\<rparr>)
          Script False None stateReady)
     = \<lparr>content = [], success = False, error = Some []\<rparr>"
  by (simp add: stateReady_eq generate_def performSearch_def sendPrompt_def
        worldAnswering_def Let_def)

section \<open>Facts about the cleanup\<close>

lemma collapseNewlines_Nil_iff: "collapseNewlines cs = [] \<longleftrightarrow> cs = []"
  by (cases cs) simp_all

lemma collapseNewlines_hd: "cs \<noteq> [] \<Longrightarrow> hd (collapseNewlines cs) = hd cs"
  by (cases cs) simp_all


lemma collapseNewlines_starts2:
  "prefix [nl, nl] (collapseNewlines cs) \<Longrightarrow> 1 \<le> length (takeWhile (\<lambda>x. x = nl) cs)"
  by (cases cs) (auto split: if_splits)
























text \<open>
  Where the pattern first matches inside a line, the text before that place is cut and the
  rest of the line stays, whether a heading follows or not.
\<close>

lemma cleanContent_marker_inside_line:
  "cleanContent ''Use C# today'' = ''# today''"
  "cleanContent ''I love C# and F#\<newline>## Real heading\<newline>text''
     = ''# and F#\<newline>## Real heading\<newline>text''"
  by code_simp+

section \<open>Facts about the parser\<close>

lemma of_char_lowerChar:
  "\<not> (65 \<le> (of_char (lowerChar c) :: nat) \<and> (of_char (lowerChar c) :: nat) \<le> 90)"
  by (auto simp add: lowerChar_def isUpper_def Let_def)

lemma toLowerCase_asciiUpperFree: "asciiUpperFree (toLowerCase s)"
  using of_char_lowerChar by (simp add: asciiUpperFree_def toLowerCase_def list_all_iff)

lemma prototype_keys_upper:
  "\<not> asciiUpperFree ''__defineGetter__''" "\<not> asciiUpperFree ''__defineSetter__''"
  "\<not> asciiUpperFree ''hasOwnProperty''" "\<not> asciiUpperFree ''__lookupGetter__''"
  "\<not> asciiUpperFree ''__lookupSetter__''" "\<not> asciiUpperFree ''isPrototypeOf''"
  "\<not> asciiUpperFree ''propertyIsEnumerable''" "\<not> asciiUpperFree ''toString''"
  "\<not> asciiUpperFree ''valueOf''" "\<not> asciiUpperFree ''toLocaleString''"
  by code_simp+

lemma lowered_prototype_key:
  assumes "toLowerCase t \<in> set objectPrototypeKeys"
  shows "toLowerCase t = ''constructor'' \<or> toLowerCase t = ''__proto__''"
proof -
  have free: "asciiUpperFree (toLowerCase t)" by (rule toLowerCase_asciiUpperFree)
  have "\<not> asciiUpperFree k \<Longrightarrow> toLowerCase t \<noteq> k" for k using free by auto
  note ne = this[OF prototype_keys_upper(1)] this[OF prototype_keys_upper(2)]
    this[OF prototype_keys_upper(3)] this[OF prototype_keys_upper(4)]
    this[OF prototype_keys_upper(5)] this[OF prototype_keys_upper(6)]
    this[OF prototype_keys_upper(7)] this[OF prototype_keys_upper(8)]
    this[OF prototype_keys_upper(9)] this[OF prototype_keys_upper(10)]
  from assms have "toLowerCase t \<in> {''constructor'', ''__defineGetter__'', ''__defineSetter__'',
     ''hasOwnProperty'', ''__lookupGetter__'', ''__lookupSetter__'', ''isPrototypeOf'',
     ''propertyIsEnumerable'', ''toString'', ''valueOf'', ''__proto__'', ''toLocaleString''}"
    by (simp only: objectPrototypeKeys_def list.set)
  then show ?thesis using ne by blast
qed

lemma commandMapGet_lowered:
  assumes "toLowerCase t \<noteq> ''constructor''" "toLowerCase t \<noteq> ''__proto__''"
  shows "commandMapGet (toLowerCase t) =
           (case map_of COMMAND_MAP (toLowerCase t) of
              Some cmd \<Rightarrow> Some (Variant cmd) | None \<Rightarrow> None)"
  using assms lowered_prototype_key[of t] by (auto simp: commandMapGet_def split: option.splits)

lemma map_of_COMMAND_MAP_empty: "map_of COMMAND_MAP [] = None"
  by code_simp

lemma parseCommand_aliases:
  "parseCommand ''/Ideas'' = Variant (CmdContent Ideas)"
  "parseCommand ''/idea'' = Variant (CmdContent Ideas)"
  by code_simp+

text \<open>
  The two inputs the parser does not turn into a \<open>Command\<close>: the lookup finds the members
  that \<open>COMMAND_MAP\<close> inherits, and \<open>parseCommand\<close> returns them.
\<close>

lemma parseCommand_inherited:
  "parseCommand ''constructor'' = Inherited ''constructor''"
  "parseCommand '' __Proto__ '' = Inherited ''__proto__''"
  by code_simp+

section \<open>Claims about the service\<close>

text \<open>
  C7. For every content type \<open>T\<close> with no cached entry, \<open>refine(T, feedback)\<close> returns a
  failure result whose error says that there is nothing to refine (the message of the code is
  "No content to refine. Generate content first."), makes no call to the search or the chat
  session (the list of effects is empty) and returns the state it was given.
\<close>
theorem refine_without_cache:
  "generatedContent (context' s) T = None \<Longrightarrow>
   refine w T feedback s =
     (\<lparr>content = [], success = False,
       error = Some ''No content to refine. Generate content first.''\<rparr>, s, [])"
  by (simp add: refine_def)

theorem refine_without_cache_witness:
  "generatedContent (context' stateWithScript) Ideas = None \<and>
   refine (worldAnswering [AssistantMessageDelta (Some ''# Ideas'')]) Ideas ''shorter'' stateWithScript =
     (\<lparr>content = [], success = False,
       error = Some ''No content to refine. Generate content first.''\<rparr>, stateWithScript, [])"
proof -
  have h: "generatedContent (context' stateWithScript) Ideas = None"
    by (simp add: stateWithScript_eq)
  show ?thesis using h refine_without_cache [OF h] by simp
qed

text \<open>
  C9. \<open>setPlatform(p)\<close> updates only the platform: every cache entry, for every content type
  \<open>T\<close>, is what it was (present and unchanged, or absent), and the topic, the stored search
  results and the fields outside the context are unchanged.
\<close>
theorem setPlatform_frame:
  "platform (context' (setPlatform p s)) = p
   \<and> generatedContent (context' (setPlatform p s)) T = generatedContent (context' s) T
   \<and> topic (context' (setPlatform p s)) = topic (context' s)
   \<and> searchResults (context' (setPlatform p s)) = searchResults (context' s)
   \<and> session (setPlatform p s) = session s
   \<and> client (setPlatform p s) = client s
   \<and> currentModel (setPlatform p s) = currentModel s
   \<and> exaConfigured (setPlatform p s) = exaConfigured s"
  by (simp add: setPlatform_def)

text \<open>
  C2. \<open>setTopic(t)\<close> sets the topic to \<open>t\<close>, empties the content cache and discards the
  stored search results. Hence, for every content type \<open>T\<close>, a \<open>generate(T, {regenerate:
  false})\<close> issued after it never returns a text cached under the previous topic: the call
  is the same whatever the cache, the search results and the topic were before \<open>setTopic\<close>,
  and a text it returns with success is the cleaned answer of a chat call made during this
  very call.
\<close>
theorem setTopic_clears_cache:
  "topic (context' (setTopic t s)) = t
   \<and> generatedContent (context' (setTopic t s)) T = None
   \<and> searchResults (context' (setTopic t s)) = None
   \<and> generate w T False ac (setTopic t s) =
       generate w T False ac
         (setTopic t (s\<lparr>context' := (context' s)\<lparr>topic := topic0, generatedContent := cache0,
                                                 searchResults := results0\<rparr>\<rparr>))
   \<and> (success (fst (generate w T False ac (setTopic t s))) \<longrightarrow>
        (\<exists>h p evs. session s = Some h \<and> sendAndWait w h p = Inr evs
            \<and> content (fst (generate w T False ac (setTopic t s))) = cleanContent (collectEvents evs)
            \<and> SendCall h p \<in> set (snd (snd (generate w T False ac (setTopic t s))))))"
proof -
  let ?s1 = "setTopic t s"
  let ?ps = "performSearch w (searchTypeOf T) ?s1"
  let ?p = "promptOf w T ac (fst ?ps) (fst (snd ?ps))"
  let ?sp = "sendPrompt w ?p (Some T) (fst (snd ?ps))"
  have g: "generate w T False ac ?s1 = (fst ?sp, fst (snd ?sp), snd (snd ?ps) @ snd (snd ?sp))"
    using generate_fresh[OF setTopic_fresh, of w T False ac t s] by (simp add: Let_def)
  have sess: "session (fst (snd ?ps)) = session s"
    by (simp add: performSearch_session setTopic_def)
  have last: "success (fst (generate w T False ac ?s1)) \<longrightarrow>
        (\<exists>h p evs. session s = Some h \<and> sendAndWait w h p = Inr evs
            \<and> content (fst (generate w T False ac ?s1)) = cleanContent (collectEvents evs)
            \<and> SendCall h p \<in> set (snd (snd (generate w T False ac ?s1))))"
  proof
    assume "success (fst (generate w T False ac ?s1))"
    then have "success (fst ?sp)" by (simp add: g)
    from sendPrompt_success[OF this] obtain h evs where
      "session (fst (snd ?ps)) = Some h" "sendAndWait w h ?p = Inr evs"
      "content (fst ?sp) = cleanContent (collectEvents evs)"
      "SendCall h ?p \<in> set (snd (snd ?sp))" by blast
    then show "\<exists>h p evs. session s = Some h \<and> sendAndWait w h p = Inr evs
            \<and> content (fst (generate w T False ac ?s1)) = cleanContent (collectEvents evs)
            \<and> SendCall h p \<in> set (snd (snd (generate w T False ac ?s1)))"
      using sess by (auto simp add: g)
  qed
  have indep: "setTopic t (s\<lparr>context' := (context' s)\<lparr>topic := topic0, generatedContent := cache0,
                                                 searchResults := results0\<rparr>\<rparr>) = setTopic t s"
    by (simp add: setTopic_def)
  show ?thesis using last by (simp add: indep) (simp add: setTopic_def)
qed


theorem setTopic_clears_cache_witness:
  "generatedContent (context' stateWithScript) Script = Some ''## Old script''
   \<and> success (fst (generate (worldAnswering [AssistantMessageDelta (Some ''# Dogs'')])
                  Script False None (setTopic ''dogs'' stateWithScript)))
   \<and> content (fst (generate (worldAnswering [AssistantMessageDelta (Some ''# Dogs'')])
                  Script False None (setTopic ''dogs'' stateWithScript))) = ''# Dogs''
   \<and> (\<exists>h p evs. session stateWithScript = Some h
          \<and> sendAndWait (worldAnswering [AssistantMessageDelta (Some ''# Dogs'')]) h p = Inr evs
          \<and> content (fst (generate (worldAnswering [AssistantMessageDelta (Some ''# Dogs'')])
                  Script False None (setTopic ''dogs'' stateWithScript)))
              = cleanContent (collectEvents evs)
          \<and> SendCall h p \<in> set (snd (snd (generate
                  (worldAnswering [AssistantMessageDelta (Some ''# Dogs'')])
                  Script False None (setTopic ''dogs'' stateWithScript)))))"
proof -
  let ?w = "worldAnswering [AssistantMessageDelta (Some ''# Dogs'')]"
  have g: "fst (generate ?w Script False None (setTopic ''dogs'' stateWithScript))
            = \<lparr>content = ''# Dogs'', success = True, error = None\<rparr>"
    by (simp add: stateWithScript_eq setTopic_def generate_def performSearch_def sendPrompt_def
        worldAnswering_def collectEvents_def clean_dogs Let_def)
  have h: "success (fst (generate ?w Script False None (setTopic ''dogs'' stateWithScript)))"
    by (simp add: g)
  have c: "generatedContent (context' stateWithScript) Script = Some ''## Old script''"
    by (simp add: stateWithScript_eq)
  from setTopic_clears_cache [of "''dogs''" stateWithScript Script ?w None]
  have "\<exists>h p evs. session stateWithScript = Some h \<and> sendAndWait ?w h p = Inr evs
          \<and> content (fst (generate ?w Script False None (setTopic ''dogs'' stateWithScript)))
              = cleanContent (collectEvents evs)
          \<and> SendCall h p \<in> set (snd (snd (generate ?w Script False None
                  (setTopic ''dogs'' stateWithScript))))"
    using h by blast
  then show ?thesis using h c g by simp
qed

text \<open>
  C10. For every content type \<open>T\<close>, \<open>generate(T, {regenerate: true})\<close> deletes the cached
  entry for \<open>T\<close> before any search or chat call: the deletion is the first effect. If the
  generation then fails (no session, or the chat call throws), the call returns a failure
  result and the cache afterwards holds no entry for \<open>T\<close>, the other entries being what
  they were: the text cached before is lost, not restored.
\<close>
theorem regenerate_loses_cache_on_failure:
  "generate w T True ac s = (r, s', es) \<Longrightarrow>
     (\<exists>rest. es = CacheDelete T # rest)
     \<and> ((session s = None \<or> (\<exists>h. session s = Some h \<and> (\<forall>p. isl (sendAndWait w h p))))
          \<longrightarrow> \<not> success r)
     \<and> (\<not> success r \<longrightarrow>
          content r = [] \<and> error r \<noteq> None
          \<and> generatedContent (context' s') T = None
          \<and> (\<forall>T'. T' \<noteq> T \<longrightarrow>
                generatedContent (context' s') T' = generatedContent (context' s) T'))"
proof -
  assume a: "generate w T True ac s = (r, s', es)"
  let ?s1 = "uncache T s"
  let ?ps = "performSearch w (searchTypeOf T) ?s1"
  let ?p = "promptOf w T ac (fst ?ps) (fst (snd ?ps))"
  let ?sp = "sendPrompt w ?p (Some T) (fst (snd ?ps))"
  have fr: "freshNeeded T True s" by (simp add: freshNeeded_def)
  have g: "generate w T True ac s =
             (fst ?sp, fst (snd ?sp), CacheDelete T # snd (snd ?ps) @ snd (snd ?sp))"
    using generate_fresh[OF fr, of w ac] by (simp add: Let_def)
  from a g have r: "r = fst ?sp" and s': "s' = fst (snd ?sp)"
    and es: "es = CacheDelete T # snd (snd ?ps) @ snd (snd ?sp)" by simp_all
  have sess: "session (fst (snd ?ps)) = session s"
    by (simp add: performSearch_session uncache_def)
  have 1: "\<exists>rest. es = CacheDelete T # rest" using es by blast
  have 2: "(session s = None \<or> (\<exists>h. session s = Some h \<and> (\<forall>p. isl (sendAndWait w h p))))
          \<longrightarrow> \<not> success r"
    unfolding r using sendPrompt_failing[of "fst (snd ?ps)" w ?p "Some T"] sess by auto
  have 3: "\<not> success r \<longrightarrow> content r = [] \<and> error r \<noteq> None
          \<and> generatedContent (context' s') T = None
          \<and> (\<forall>T'. T' \<noteq> T \<longrightarrow>
                generatedContent (context' s') T' = generatedContent (context' s) T')"
  proof
    assume f: "\<not> success r"
    then have "s' = fst (snd ?ps)"
      unfolding r s' by (rule sendPrompt_failure_state)
    then have "generatedContent (context' s') = generatedContent (context' ?s1)"
      by (simp add: performSearch_cache)
    moreover have "content r = [] \<and> error r \<noteq> None"
      using f sendPrompt_shape[of w ?p "Some T" "fst (snd ?ps)"] unfolding r by blast
    ultimately show "content r = [] \<and> error r \<noteq> None
          \<and> generatedContent (context' s') T = None
          \<and> (\<forall>T'. T' \<noteq> T \<longrightarrow>
                generatedContent (context' s') T' = generatedContent (context' s) T')"
      by (simp add: uncache_def)
  qed
  show ?thesis using 1 2 3 by blast
qed

theorem regenerate_loses_cache_on_failure_witness:
  "generate worldFailing Script True None stateWithScript =
     (\<lparr>content = [], success = False, error = Some ''request timed out''\<rparr>,
      stateWithScript\<lparr>context' := (context' stateWithScript)\<lparr>generatedContent := Map.empty\<rparr>\<rparr>,
      [CacheDelete Script, SendCall 1 (promptOf worldFailing Script None
          ''Note: Using general knowledge. For better results, set EXA_API_KEY in .env file.''
          stateWithScript)])
   \<and> generatedContent (context' stateWithScript) Script = Some ''## Old script''
   \<and> session stateWithScript = Some 1 \<and> (\<forall>p. isl (sendAndWait worldFailing 1 p))
   \<and> generatedContent (context' (stateWithScript\<lparr>context' :=
          (context' stateWithScript)\<lparr>generatedContent := Map.empty\<rparr>\<rparr>)) Script = None"
proof -
  have g: "generate worldFailing Script True None stateWithScript =
     (\<lparr>content = [], success = False, error = Some ''request timed out''\<rparr>,
      stateWithScript\<lparr>context' := (context' stateWithScript)\<lparr>generatedContent := Map.empty\<rparr>\<rparr>,
      [CacheDelete Script, SendCall 1 (promptOf worldFailing Script None
          ''Note: Using general knowledge. For better results, set EXA_API_KEY in .env file.''
          stateWithScript)])"
    by (simp add: stateWithScript_eq generate_def performSearch_def sendPrompt_def promptOf_def
        worldFailing_def worldAnswering_def Let_def searchTypeOf_def)
  have w: "\<forall>p. isl (sendAndWait worldFailing 1 p)"
    by (simp add: worldFailing_def worldAnswering_def)
  have "generatedContent (context' (stateWithScript\<lparr>context' :=
          (context' stateWithScript)\<lparr>generatedContent := Map.empty\<rparr>\<rparr>)) Script = None"
    using regenerate_loses_cache_on_failure [OF g] by simp
  then show ?thesis using g w by (simp add: stateWithScript_eq)
qed




text \<open>
  C5, as the code has it. When \<open>switchModel(newModel)\<close> fails, the error of the session creation
  reaches the caller after the old session, if there was one, has been destroyed and after
  the model field has been assigned: the service is left with \<open>newModel\<close> as its model and
  with the session field still holding the old, destroyed session; nothing replaces it. The
  client, the context (topic, platform, cache, search results) are unchanged.
\<close>
theorem switchModel_failure_state:
  "switchModel w newModel s = (Inl err, s', es) \<Longrightarrow>
     newModel \<noteq> currentModel s
     \<and> currentModel s' = newModel
     \<and> session s' = session s
     \<and> client s' = client s
     \<and> context' s' = context' s
     \<and> exaConfigured s' = exaConfigured s
     \<and> es = (case session s of Some h \<Rightarrow> [DestroyCall h] | None \<Rightarrow> [])
            @ (case client s of Some cl \<Rightarrow> [CreateSessionCall cl newModel] | None \<Rightarrow> [])
     \<and> (case client s of Some cl \<Rightarrow> newSession w cl newModel = Inl err
                        | None \<Rightarrow> err = ErrorObj (nullMessage w))"
  by (auto simp add: switchModel_def createSession_def Let_def
      split: if_splits option.splits sum.splits)

theorem switchModel_failure_state_witness:
  "switchModel worldFailing Gpt5 stateWithScript =
     (Inl (ErrorObj ''model not available''), stateWithScript\<lparr>currentModel := Gpt5\<rparr>,
      [DestroyCall 1, CreateSessionCall 0 Gpt5])
   \<and> currentModel (stateWithScript\<lparr>currentModel := Gpt5\<rparr>) = Gpt5
   \<and> session (stateWithScript\<lparr>currentModel := Gpt5\<rparr>) = session stateWithScript"
proof -
  have g: "switchModel worldFailing Gpt5 stateWithScript =
     (Inl (ErrorObj ''model not available''), stateWithScript\<lparr>currentModel := Gpt5\<rparr>,
      [DestroyCall 1, CreateSessionCall 0 Gpt5])"
    by (simp add: stateWithScript_eq switchModel_def createSession_def worldFailing_def
        worldAnswering_def Let_def)
  show ?thesis using g switchModel_failure_state [OF g] by simp
qed

text \<open>
  C5 as stated fails: a switch from \<open>gpt-4o\<close> to \<open>gpt-5\<close> whose session creation throws
  leaves \<open>gpt-5\<close> as the model, and session 1 has been destroyed with no new session made.
\<close>

theorem switchModel_keeps_previous_counterexample:
  "currentModel stateWithScript = Gpt4o
   \<and> session stateWithScript = Some 1
   \<and> switchModel worldFailing Gpt5 stateWithScript =
       (Inl (ErrorObj ''model not available''), stateWithScript\<lparr>currentModel := Gpt5\<rparr>,
        [DestroyCall 1, CreateSessionCall 0 Gpt5])
   \<and> currentModel (fst (snd (switchModel worldFailing Gpt5 stateWithScript))) = Gpt5
   \<and> session (fst (snd (switchModel worldFailing Gpt5 stateWithScript))) = Some 1"
  by (simp add: stateWithScript_eq switchModel_def createSession_def worldFailing_def
        worldAnswering_def Let_def)

text \<open>
  C6, as the code has it. Every \<open>GenerationResult\<close> returned by \<open>generate\<close>, \<open>refine\<close> or
  \<open>getMoreVariations\<close> is either a success or a failure, never both. A success carries no
  error message; its text is the cached text, which is not empty (a \<open>generate\<close> served from
  the cache, with no effect), or the cleaned answer of the chat call made by this call, which
  is empty when that cleaned answer is empty (the callers test \<open>result.success &&
  result.content\<close>). A failure carries the empty text and an error message: "Session not
  initialized" when there is no session, "No content to refine. Generate content first." or
  "No existing content. Generate content first." when nothing is cached, and otherwise what
  the chat call threw: the message of the thrown \<open>Error\<close>, whatever it is, or "Generation
  failed" for any other thrown value.
\<close>
theorem generationResult_shape:
  "reachable s \<Longrightarrow>
   (r, s', es) \<in> {generate w T rg ac s, refine w T fb s, getMoreVariations w T s} \<Longrightarrow>
     (success r \<longrightarrow>
        error r = None
        \<and> (generatedContent (context' s) T = Some (content r) \<and> content r \<noteq> []
              \<and> es = [] \<and> s' = s
            \<or> (\<exists>h p evs. session s = Some h \<and> sendAndWait w h p = Inr evs
                  \<and> content r = cleanContent (collectEvents evs) \<and> SendCall h p \<in> set es)))
     \<and> (\<not> success r \<longrightarrow>
        content r = []
        \<and> (error r = Some ''Session not initialized'' \<and> session s = None
            \<or> error r = Some ''No content to refine. Generate content first.'' \<and> es = []
            \<or> error r = Some ''No existing content. Generate content first.'' \<and> es = []
            \<or> (\<exists>h p e. session s = Some h \<and> sendAndWait w h p = Inl e
                  \<and> error r = Some (errorMessage e) \<and> SendCall h p \<in> set es)))"
proof -
  assume reach: "reachable s"
    and mem: "(r, s', es) \<in> {generate w T rg ac s, refine w T fb s, getMoreVariations w T s}"
  have inv: "cacheNonEmpty s" using reach by (rule reachable_cacheNonEmpty)
  let ?viaChat = "\<lambda>r es. \<exists>h p evs. session s = Some h \<and> sendAndWait w h p = Inr evs
                  \<and> content r = cleanContent (collectEvents evs) \<and> SendCall h p \<in> set es"
  let ?chatThrew = "\<lambda>r es. \<exists>h p e. session s = Some h \<and> sendAndWait w h p = Inl e
                  \<and> error r = Some (errorMessage e) \<and> SendCall h p \<in> set es"
  have sent: "(success (fst sp) \<longrightarrow> error (fst sp) = None \<and> ?viaChat (fst sp) (pre @ snd (snd sp)))
      \<and> (\<not> success (fst sp) \<longrightarrow> content (fst sp) = []
           \<and> (error (fst sp) = Some ''Session not initialized'' \<and> session s = None
               \<or> ?chatThrew (fst sp) (pre @ snd (snd sp))))"
    if "sp = sendPrompt w p cto s0" "session s0 = session s" for sp p cto s0 pre
    using sendPrompt_outcome[of w p cto s0] that by (simp, blast)
  from mem consider
    (g) "generate w T rg ac s = (r, s', es)"
    | (f) "refine w T fb s = (r, s', es)"
    | (v) "getMoreVariations w T s = (r, s', es)" by auto
  then show ?thesis
  proof cases
    case g
    show ?thesis
    proof (cases "freshNeeded T rg s")
      case True
      let ?ps = "performSearch w (searchTypeOf T) (if rg then uncache T s else s)"
      let ?sp = "sendPrompt w (promptOf w T ac (fst ?ps) (fst (snd ?ps))) (Some T) (fst (snd ?ps))"
      let ?pre = "(if rg then [CacheDelete T] else []) @ snd (snd ?ps)"
      have "generate w T rg ac s = (fst ?sp, fst (snd ?sp), ?pre @ snd (snd ?sp))"
        using generate_fresh[OF True, of w ac] by (simp add: Let_def)
      with g have r: "r = fst ?sp" and es: "es = ?pre @ snd (snd ?sp)" by simp_all
      have "session (fst (snd ?ps)) = session s"
        by (simp add: performSearch_session uncache_def)
      from sent[OF refl this, of _ _ ?pre] show ?thesis unfolding r es by blast
    next
      case False
      then obtain c where c: "generatedContent (context' s) T = Some c" "c \<noteq> []"
        by (auto simp: freshNeeded_def)
      with g generate_cached[OF False, of w ac] have
        "r = \<lparr>content = c, success = True, error = None\<rparr>" "s' = s" "es = []" by simp_all
      then show ?thesis using c by simp
    qed
  next
    case f
    show ?thesis
    proof (cases "\<exists>c. generatedContent (context' s) T = Some c \<and> c \<noteq> []")
      case True
      then obtain c where "generatedContent (context' s) T = Some c" "c \<noteq> []" by blast
      then have "refine w T fb s = sendPrompt w (getRefinementPrompt c fb) (Some T) s"
        by (simp add: refine_def)
      with f have r: "r = fst (sendPrompt w (getRefinementPrompt c fb) (Some T) s)"
        and es: "es = [] @ snd (snd (sendPrompt w (getRefinementPrompt c fb) (Some T) s))"
        by simp_all
      from sent[OF refl refl, of _ _ "[]"] show ?thesis unfolding r es by blast
    next
      case False
      then have "refine w T fb s = (\<lparr>content = [], success = False,
           error = Some ''No content to refine. Generate content first.''\<rparr>, s, [])"
        by (auto simp add: refine_def split: option.splits)
      with f show ?thesis by auto
    qed
  next
    case v
    show ?thesis
    proof (cases "\<exists>c. generatedContent (context' s) T = Some c \<and> c \<noteq> []")
      case True
      then obtain c where "generatedContent (context' s) T = Some c" "c \<noteq> []" by blast
      then have "getMoreVariations w T s =
          sendPrompt w (getMoreVariationsPrompt T c (topic (context' s))) (Some T) s"
        by (simp add: getMoreVariations_def)
      with v have
        r: "r = fst (sendPrompt w (getMoreVariationsPrompt T c (topic (context' s))) (Some T) s)"
        and es: "es = [] @ snd (snd (sendPrompt w
                    (getMoreVariationsPrompt T c (topic (context' s))) (Some T) s))"
        by simp_all
      from sent[OF refl refl, of _ _ "[]"] show ?thesis unfolding r es by blast
    next
      case False
      then have "getMoreVariations w T s = (\<lparr>content = [], success = False,
           error = Some ''No existing content. Generate content first.''\<rparr>, s, [])"
        by (auto simp add: getMoreVariations_def split: option.splits)
      with v show ?thesis by auto
    qed
  qed
qed


theorem generationResult_shape_witness:
  "reachable stateReady
   \<and> success (fst (generate (worldAnswering [AssistantMessageDelta (Some '' '')])
                   Script True None stateReady))
   \<and> error (fst (generate (worldAnswering [AssistantMessageDelta (Some '' '')])
                   Script True None stateReady)) = None
   \<and> (\<exists>h p evs. session stateReady = Some h
         \<and> sendAndWait (worldAnswering [AssistantMessageDelta (Some '' '')]) h p = Inr evs
         \<and> content (fst (generate (worldAnswering [AssistantMessageDelta (Some '' '')])
                   Script True None stateReady)) = cleanContent (collectEvents evs)
         \<and> SendCall h p \<in> set (snd (snd (generate
               (worldAnswering [AssistantMessageDelta (Some '' '')]) Script True None stateReady))))
   \<and> \<not> success (fst (generate worldFailing Script False None stateReady))
   \<and> content (fst (generate worldFailing Script False None stateReady)) = []
   \<and> (\<exists>h p e. session stateReady = Some h \<and> sendAndWait worldFailing h p = Inl e
         \<and> error (fst (generate worldFailing Script False None stateReady))
             = Some (errorMessage e)
         \<and> SendCall h p \<in> set (snd (snd (generate worldFailing Script False None stateReady))))"
proof -
  let ?w = "worldAnswering [AssistantMessageDelta (Some '' '')]"
  let ?a = "generate ?w Script True None stateReady"
  let ?b = "generate worldFailing Script False None stateReady"
  have ma: "(fst ?a, fst (snd ?a), snd (snd ?a))
              \<in> {generate ?w Script True None stateReady, refine ?w Script [] stateReady,
                  getMoreVariations ?w Script stateReady}" by simp
  have mb: "(fst ?b, fst (snd ?b), snd (snd ?b))
              \<in> {generate worldFailing Script False None stateReady,
                  refine worldFailing Script [] stateReady,
                  getMoreVariations worldFailing Script stateReady}" by simp
  have sa: "success (fst ?a)" and ea: "content (fst ?a) = []"
    by (simp_all add: generate_blank_answer)
  have fb: "\<not> success (fst ?b)" and eb: "error (fst ?b) = Some ''request timed out''"
    by (simp_all add: generate_failing)
  have A: "error (fst ?a) = None
     \<and> (\<exists>h p evs. session stateReady = Some h \<and> sendAndWait ?w h p = Inr evs
           \<and> content (fst ?a) = cleanContent (collectEvents evs)
           \<and> SendCall h p \<in> set (snd (snd ?a)))"
    using generationResult_shape [OF reachable_stateReady ma] sa ea by blast
  have B: "content (fst ?b) = []
     \<and> (\<exists>h p e. session stateReady = Some h \<and> sendAndWait worldFailing h p = Inl e
           \<and> error (fst ?b) = Some (errorMessage e) \<and> SendCall h p \<in> set (snd (snd ?b)))"
    using generationResult_shape [OF reachable_stateReady mb] fb eb by auto
  show ?thesis using reachable_stateReady sa A fb B by blast
qed

text \<open>
  C6 as stated fails: a chat answer that is only white space gives a success whose text is
  empty.
\<close>

theorem success_nonempty_counterexample:
  "fst (generate (worldAnswering [AssistantMessageDelta (Some '' '')]) Script True None stateReady)
     = \<lparr>content = [], success = True, error = None\<rparr>"
  by (simp add: generate_blank_answer)

text \<open>
  C3, as the code has it. For every content type \<open>T\<close>, in every state the service can be in:
  if the cache holds an entry for \<open>T\<close>, \<open>generate(T, {regenerate: false})\<close> returns success
  with exactly the cached text, with no search or chat call (no effect at all) and with the
  state unchanged. In particular, when a first \<open>generate(T, {regenerate: false})\<close> has
  returned a text that is not empty, a second one with no change in between returns the
  identical result with no call, whatever the collaborators would answer. A first call that
  fails, or whose text is empty, leaves no entry for \<open>T\<close> in the cache.
\<close>
theorem generate_cached_no_calls:
  "reachable s \<Longrightarrow>
     (generatedContent (context' s) T = Some cached \<longrightarrow>
        generate w T False ac s = (\<lparr>content = cached, success = True, error = None\<rparr>, s, []))
     \<and> (generate w1 T False ac1 s = (r1, s1, es1) \<and> success r1 \<and> content r1 \<noteq> [] \<longrightarrow>
        generate w2 T False ac2 s1 = (r1, s1, []))
     \<and> (generate w1 T False ac1 s = (r1, s1, es1) \<and> (\<not> success r1 \<or> content r1 = []) \<longrightarrow>
        generatedContent (context' s1) T = None)"
proof -
  assume reach: "reachable s"
  have inv: "cacheNonEmpty s" using reach by (rule reachable_cacheNonEmpty)
  have part1: "generatedContent (context' s) T = Some cached \<longrightarrow>
        generate w T False ac s = (\<lparr>content = cached, success = True, error = None\<rparr>, s, [])"
  proof
    assume c: "generatedContent (context' s) T = Some cached"
    then have "cached \<noteq> []" using inv by (auto simp: cacheNonEmpty_iff)
    then have "\<not> freshNeeded T False s" using c by (simp add: freshNeeded_def)
    from generate_cached[OF this] show
      "generate w T False ac s = (\<lparr>content = cached, success = True, error = None\<rparr>, s, [])"
      using c by simp
  qed
  have fresh_cache: "generatedContent (context' s1) =
      (if success r1 \<and> content r1 \<noteq> [] then (generatedContent (context' s))(T \<mapsto> content r1)
       else generatedContent (context' s))"
    if g1: "generate w1 T False ac1 s = (r1, s1, es1)" and fr: "freshNeeded T False s"
  proof -
    let ?ps = "performSearch w1 (searchTypeOf T) s"
    let ?sp = "sendPrompt w1 (promptOf w1 T ac1 (fst ?ps) (fst (snd ?ps))) (Some T)
                 (fst (snd ?ps))"
    have "generate w1 T False ac1 s = (fst ?sp, fst (snd ?sp), snd (snd ?ps) @ snd (snd ?sp))"
      using generate_fresh[OF fr, of w1 ac1] by (simp add: Let_def)
    with g1 have "r1 = fst ?sp" "s1 = fst (snd ?sp)" by simp_all
    then show ?thesis by (simp add: sendPrompt_cache performSearch_cache)
  qed
  have part2: "generate w1 T False ac1 s = (r1, s1, es1) \<and> success r1 \<and> content r1 \<noteq> [] \<longrightarrow>
        generate w2 T False ac2 s1 = (r1, s1, [])"
  proof
    assume a: "generate w1 T False ac1 s = (r1, s1, es1) \<and> success r1 \<and> content r1 \<noteq> []"
    then have g1: "generate w1 T False ac1 s = (r1, s1, es1)" and ok: "success r1"
      and ne: "content r1 \<noteq> []" by simp_all
    have err: "error r1 = None"
      using generate_shape[of w1 T False ac1 s] ok g1 by simp
    have r1: "r1 = \<lparr>content = content r1, success = True, error = None\<rparr>"
      using ok err by simp
    have cache1: "generatedContent (context' s1) T = Some (content r1)"
    proof (cases "freshNeeded T False s")
      case True
      from fresh_cache[OF g1 True] show ?thesis using ok ne by simp
    next
      case False
      then obtain c where "generatedContent (context' s) T = Some c"
        by (auto simp: freshNeeded_def)
      then show ?thesis using g1 generate_cached[OF False, of w1 ac1] by auto
    qed
    then have "\<not> freshNeeded T False s1" using ne by (simp add: freshNeeded_def)
    from generate_cached[OF this, of w2 ac2] show "generate w2 T False ac2 s1 = (r1, s1, [])"
      using cache1 r1 by simp
  qed
  have part3: "generate w1 T False ac1 s = (r1, s1, es1) \<and> (\<not> success r1 \<or> content r1 = [])
        \<longrightarrow> generatedContent (context' s1) T = None"
  proof
    assume a: "generate w1 T False ac1 s = (r1, s1, es1) \<and> (\<not> success r1 \<or> content r1 = [])"
    then have g1: "generate w1 T False ac1 s = (r1, s1, es1)"
      and bad: "\<not> success r1 \<or> content r1 = []" by simp_all
    show "generatedContent (context' s1) T = None"
    proof (cases "freshNeeded T False s")
      case True
      then have "generatedContent (context' s) T = None"
        using inv by (auto simp: freshNeeded_def cacheNonEmpty_iff)
      then show ?thesis using fresh_cache[OF g1 True] bad by auto
    next
      case False
      then obtain c where "generatedContent (context' s) T = Some c" "c \<noteq> []"
        by (auto simp: freshNeeded_def)
      then have "success r1 \<and> content r1 \<noteq> []"
        using g1 generate_cached[OF False, of w1 ac1] by auto
      then show ?thesis using bad by simp
    qed
  qed
  show ?thesis using part1 part2 part3 by blast
qed

theorem generate_cached_no_calls_witness:
  "reachable stateReady
   \<and> generatedContent (context' stateWithScript) Script = Some ''## Old script''
   \<and> generate worldFailing Script False None stateWithScript =
        (\<lparr>content = ''## Old script'', success = True, error = None\<rparr>, stateWithScript, [])
   \<and> generate (worldAnswering [AssistantMessageDelta (Some ''## Old script'')])
        Script False None stateReady =
        (\<lparr>content = ''## Old script'', success = True, error = None\<rparr>, stateWithScript,
         [SendCall 1 (promptOf (worldAnswering [AssistantMessageDelta (Some ''## Old script'')])
            Script None
            ''Note: Using general knowledge. For better results, set EXA_API_KEY in .env file.''
            stateReady),
          CacheSet Script ''## Old script''])
   \<and> generate (worldAnswering [AssistantMessageDelta (Some ''# Other'')])
        Script False None stateWithScript =
        (\<lparr>content = ''## Old script'', success = True, error = None\<rparr>, stateWithScript, [])
   \<and> generate worldFailing Script False None stateReady =
        (\<lparr>content = [], success = False, error = Some ''request timed out''\<rparr>, stateReady,
         [SendCall 1 (promptOf worldFailing Script None
            ''Note: Using general knowledge. For better results, set EXA_API_KEY in .env file.''
            stateReady)])
   \<and> generatedContent (context' stateReady) Script = None"
proof -
  let ?w = "worldAnswering [AssistantMessageDelta (Some ''## Old script'')]"
  let ?r = "\<lparr>content = ''## Old script'', success = True, error = None\<rparr>"
  let ?f = "\<lparr>content = [], success = False, error = Some ''request timed out''\<rparr>"
  have c: "generatedContent (context' stateWithScript) Script = Some ''## Old script''"
    by (simp add: stateWithScript_eq)
  note g1 = generate_first_script
  note g3 = generate_failing
  have ok: "success ?r \<and> content ?r \<noteq> []" by simp
  have bad: "\<not> success ?f \<or> content ?f = []" by simp
  have first: "generate worldFailing Script False None stateWithScript = (?r, stateWithScript, [])"
    using generate_cached_no_calls [OF reachable_stateWithScript, where T = Script
        and cached = "''## Old script''" and w = worldFailing and ac = None] c by blast
  have second: "generate (worldAnswering [AssistantMessageDelta (Some ''# Other'')])
        Script False None stateWithScript = (?r, stateWithScript, [])"
    using generate_cached_no_calls [OF reachable_stateReady, where T = Script and ?w1.0 = ?w
        and ?ac1.0 = None and ?r1.0 = ?r and ?s1.0 = stateWithScript
        and ?w2.0 = "worldAnswering [AssistantMessageDelta (Some ''# Other'')]"
        and ?ac2.0 = None] g1 ok by blast
  have third: "generatedContent (context' stateReady) Script = None"
    using generate_cached_no_calls [OF reachable_stateReady, where T = Script
        and ?w1.0 = worldFailing and ?ac1.0 = None and ?r1.0 = ?f and ?s1.0 = stateReady] g3 bad
    by blast
  show ?thesis using reachable_stateReady c first g1 second g3 third by blast
qed

text \<open>
  C3 as stated fails: after a first \<open>generate("script")\<close> whose chat call throws, nothing is
  cached, and a second \<open>generate("script")\<close> with no topic change sends a prompt again.
\<close>

theorem second_generate_calls_again_counterexample:
  "generate worldFailing Script False None stateReady =
        (\<lparr>content = [], success = False, error = Some ''request timed out''\<rparr>, stateReady,
         [SendCall 1 (promptOf worldFailing Script None
            ''Note: Using general knowledge. For better results, set EXA_API_KEY in .env file.''
            stateReady)])
   \<and> generate (worldAnswering [AssistantMessageDelta (Some ''## Old script'')])
        Script False None stateReady =
        (\<lparr>content = ''## Old script'', success = True, error = None\<rparr>, stateWithScript,
         [SendCall 1 (promptOf (worldAnswering [AssistantMessageDelta (Some ''## Old script'')])
            Script None
            ''Note: Using general knowledge. For better results, set EXA_API_KEY in .env file.''
            stateReady),
          CacheSet Script ''## Old script''])"
  using generate_failing generate_first_script by simp

section \<open>Claims about the cleanup\<close>




section \<open>Claims about the parser\<close>

text \<open>
  C8, as the code has it. \<open>parseCommand\<close> is a function of its input alone. For every input
  whose trimmed, lower-cased form is neither "constructor" nor "__proto__" it yields exactly
  one variant: the input is trimmed; if the lower-cased trimmed input is a key of the command
  table (aliases included: "/Ideas" and "/idea" both give the content variant for
  \<open>ideas\<close>), the variant of the table; if the trimmed input is empty, a chat variant with the
  empty message; otherwise, whether the text starts with a slash or not, a chat variant with
  the trimmed text in its original case.
\<close>
theorem parseCommand_rules:
  "toLowerCase (trim inputText) \<noteq> ''constructor'' \<and> toLowerCase (trim inputText) \<noteq> ''__proto__'' \<Longrightarrow>
     (\<exists>cmd. parseCommand inputText = Variant cmd)
     \<and> (\<forall>cmd. map_of COMMAND_MAP (toLowerCase (trim inputText)) = Some cmd \<longrightarrow>
            parseCommand inputText = Variant cmd)
     \<and> (trim inputText = [] \<longrightarrow> parseCommand inputText = Variant (CmdChat []))
     \<and> (map_of COMMAND_MAP (toLowerCase (trim inputText)) = None \<longrightarrow>
            parseCommand inputText = Variant (CmdChat (trim inputText)))
     \<and> parseCommand ''/Ideas'' = Variant (CmdContent Ideas)
     \<and> parseCommand ''/idea'' = Variant (CmdContent Ideas)"
proof -
  assume a: "toLowerCase (trim inputText) \<noteq> ''constructor''
             \<and> toLowerCase (trim inputText) \<noteq> ''__proto__''"
  let ?l = "toLowerCase (trim inputText)"
  have get: "commandMapGet ?l =
           (case map_of COMMAND_MAP ?l of Some cmd \<Rightarrow> Some (Variant cmd) | None \<Rightarrow> None)"
    using a by (simp add: commandMapGet_lowered)
  have hit: "\<forall>cmd. map_of COMMAND_MAP ?l = Some cmd \<longrightarrow> parseCommand inputText = Variant cmd"
    by (simp add: parseCommand_def Let_def get)
  have miss: "map_of COMMAND_MAP ?l = None \<longrightarrow>
            parseCommand inputText = Variant (CmdChat (trim inputText))"
    by (simp add: parseCommand_def Let_def get)
  have empty: "trim inputText = [] \<longrightarrow> parseCommand inputText = Variant (CmdChat [])"
  proof
    assume e: "trim inputText = []"
    then have "map_of COMMAND_MAP ?l = None"
      by (simp add: toLowerCase_def map_of_COMMAND_MAP_empty)
    with miss e show "parseCommand inputText = Variant (CmdChat [])" by simp
  qed
  have ex: "\<exists>cmd. parseCommand inputText = Variant cmd"
    using hit miss by (cases "map_of COMMAND_MAP ?l") auto
  show ?thesis using ex hit empty miss parseCommand_aliases by blast
qed

theorem parseCommand_rules_witness:
  "toLowerCase (trim '' /Ideas '') \<noteq> ''constructor''
   \<and> toLowerCase (trim '' /Ideas '') \<noteq> ''__proto__''
   \<and> map_of COMMAND_MAP (toLowerCase (trim '' /Ideas '')) = Some (CmdContent Ideas)
   \<and> parseCommand '' /Ideas '' = Variant (CmdContent Ideas)
   \<and> trim ''   '' = []
   \<and> parseCommand ''   '' = Variant (CmdChat [])
   \<and> map_of COMMAND_MAP (toLowerCase (trim ''  /Foo bar '')) = None
   \<and> parseCommand ''  /Foo bar '' = Variant (CmdChat ''/Foo bar'')
   \<and> map_of COMMAND_MAP (toLowerCase (trim ''Hello there'')) = None
   \<and> parseCommand ''Hello there'' = Variant (CmdChat ''Hello there'')"
proof -
  have p1: "toLowerCase (trim '' /Ideas '') \<noteq> ''constructor''
            \<and> toLowerCase (trim '' /Ideas '') \<noteq> ''__proto__''" by code_simp
  have p2: "toLowerCase (trim ''   '') \<noteq> ''constructor''
            \<and> toLowerCase (trim ''   '') \<noteq> ''__proto__''" by code_simp
  have p3: "toLowerCase (trim ''  /Foo bar '') \<noteq> ''constructor''
            \<and> toLowerCase (trim ''  /Foo bar '') \<noteq> ''__proto__''" by code_simp
  have p4: "toLowerCase (trim ''Hello there'') \<noteq> ''constructor''
            \<and> toLowerCase (trim ''Hello there'') \<noteq> ''__proto__''" by code_simp
  have h1: "map_of COMMAND_MAP (toLowerCase (trim '' /Ideas '')) = Some (CmdContent Ideas)"
    by code_simp
  have h2: "trim ''   '' = []" by code_simp
  have h3: "map_of COMMAND_MAP (toLowerCase (trim ''  /Foo bar '')) = None" by code_simp
  have h4: "map_of COMMAND_MAP (toLowerCase (trim ''Hello there'')) = None" by code_simp
  have t3: "trim ''  /Foo bar '' = ''/Foo bar''" by code_simp
  have t4: "trim ''Hello there'' = ''Hello there''" by code_simp
  have c1: "parseCommand '' /Ideas '' = Variant (CmdContent Ideas)"
    using parseCommand_rules [OF p1] h1 by blast
  have c2: "parseCommand ''   '' = Variant (CmdChat [])"
    using parseCommand_rules [OF p2] h2 by blast
  have c3: "parseCommand ''  /Foo bar '' = Variant (CmdChat ''/Foo bar'')"
    using parseCommand_rules [OF p3] h3 t3 by simp
  have c4: "parseCommand ''Hello there'' = Variant (CmdChat ''Hello there'')"
    using parseCommand_rules [OF p4] h4 t4 by simp
  show ?thesis using p1 h1 c1 h2 c2 h3 c3 h4 c4 by blast
qed

text \<open>
  C8 as stated fails: an unrecognised slash-prefixed input with white space around it gives a
  chat variant with the trimmed text, not with the raw input.
\<close>

theorem parseCommand_raw_text_counterexample:
  "parseCommand ''  /Foo bar '' = Variant (CmdChat ''/Foo bar'')
   \<and> parseCommand ''  /Foo bar '' \<noteq> Variant (CmdChat ''  /Foo bar '')"
  by code_simp

end
